theory Spec2Isabelle
  imports Main
begin

section \<open>HTTP responses\<close>

text \<open>
  Every handler answers with a status code and a JSON object
  (\<^verbatim>\<open>res.status(c).json({...})\<close>; \<^verbatim>\<open>res.json\<close> alone is status 200).
  The object is kept as the list of its keys and values, in the order the source writes them.
\<close>

datatype json = JNull | JInt int | JStr string | JArr "json list" | JObj "(string \<times> json) list"

datatype response = Response nat "(string \<times> json) list"

fun res_status :: "response \<Rightarrow> nat" where
  "res_status (Response c b) = c"

fun res_field :: "response \<Rightarrow> string \<Rightarrow> json option" where
  "res_field (Response c b) k = map_of b k"

definition json_error :: "nat \<Rightarrow> string \<Rightarrow> response" where
  "json_error c msg = Response c [(''error'', JStr msg)]"

definition json_message :: "string \<Rightarrow> response" where
  "json_message msg = Response 200 [(''message'', JStr msg)]"

fun json_of_int_option :: "int option \<Rightarrow> json" where
  "json_of_int_option None = JNull"
| "json_of_int_option (Some n) = JInt n"

section \<open>The relational store\<close>

text \<open>
  One record per table, with the columns the route handlers read or write. A nullable column
  is an \<open>option\<close>. A table is the list of its rows in insertion order; \<^verbatim>\<open>INSERT\<close> appends.
  The two migration scripts of the repository disagree on the \<^verbatim>\<open>events\<close> table
  (\<^verbatim>\<open>capacity\<close> and \<^verbatim>\<open>qr_secret\<close> in one, \<^verbatim>\<open>max_participants\<close> in the other); an event row
  here carries both \<^verbatim>\<open>max_participants\<close>, read by the registration handler, and \<^verbatim>\<open>qr_secret\<close>,
  read by the QR check-in handler. Timestamps are integers.
\<close>

record event_row =
  ev_id :: int
  ev_college_id :: int
  ev_title :: string
  max_participants :: "int option"
  qr_secret :: "string option"

record student_row =
  st_id :: int
  st_college_id :: int
  st_email :: string
  st_password_hash :: string
  st_first_name :: string
  st_last_name :: string
  st_is_active :: "int option"

record admin_row =
  ad_id :: int
  ad_college_id :: int
  ad_email :: string
  ad_password_hash :: string
  ad_is_active :: "int option"

datatype reg_status = Registered | Waitlisted | Cancelled

fun status_name :: "reg_status \<Rightarrow> string" where
  "status_name Registered = ''registered''"
| "status_name Waitlisted = ''waitlisted''"
| "status_name Cancelled = ''cancelled''"

record registration_row =
  reg_college_id :: int
  reg_event_id :: int
  reg_student_id :: int
  reg_status :: reg_status
  waitlist_position :: "int option"

record attendance_row =
  att_college_id :: int
  att_event_id :: int
  att_student_id :: int
  checked_in_at :: int

record feedback_row =
  fb_id :: int
  fb_college_id :: int
  fb_event_id :: int
  fb_student_id :: int
  fb_rating :: int
  fb_comments :: "string option"
  fb_suggestions :: "string option"
  fb_anonymous :: bool

record note_row =
  note_event_id :: int
  note_student_id :: int
  note_content :: string

record db =
  events :: "event_row list"
  students :: "student_row list"
  admins :: "admin_row list"
  registrations :: "registration_row list"
  attendance :: "attendance_row list"
  feedback :: "feedback_row list"
  notes_table :: "note_row list"

text \<open>The decoded credential, \<^verbatim>\<open>req.user\<close>: the payload \<^verbatim>\<open>{id, college_id, role}\<close> that login signs.\<close>

record user =
  user_id :: int
  user_college_id :: int
  user_role :: string

section \<open>JavaScript and SQL helpers\<close>

text \<open>\<^verbatim>\<open>!x\<close> on a nullable TINYINT column: \<^verbatim>\<open>null\<close> and \<^verbatim>\<open>0\<close> are falsy.\<close>

fun js_truthy :: "int option \<Rightarrow> bool" where
  "js_truthy None = False"
| "js_truthy (Some n) = (n \<noteq> 0)"

text \<open>\<^verbatim>\<open>count >= capacity\<close>: a \<^verbatim>\<open>null\<close> operand is converted to the number 0.\<close>

fun js_to_number :: "int option \<Rightarrow> int" where
  "js_to_number None = 0"
| "js_to_number (Some n) = n"

definition js_ge :: "int \<Rightarrow> int option \<Rightarrow> bool" where
  "js_ge a b = (a \<ge> js_to_number b)"

text \<open>\<^verbatim>\<open>x || 0\<close>: the left operand when it is truthy, else 0.\<close>

definition js_or_zero :: "int option \<Rightarrow> int" where
  "js_or_zero x = (if js_truthy x then js_to_number x else 0)"

text \<open>SQL \<^verbatim>\<open>MAX\<close> over a nullable column: NULLs are skipped, and no value at all gives NULL.\<close>

fun non_null :: "'a option list \<Rightarrow> 'a list" where
  "non_null [] = []"
| "non_null (None # xs) = non_null xs"
| "non_null (Some x # xs) = x # non_null xs"

definition sql_max :: "int option list \<Rightarrow> int option" where
  "sql_max xs = (case non_null xs of [] \<Rightarrow> None | y # ys \<Rightarrow> Some (fold max ys y))"

section \<open>Middleware (middleware/auth.js)\<close>

text \<open>
  \<^verbatim>\<open>authenticateToken\<close>: the token is the second space-separated piece of the Authorization
  header. \<^verbatim>\<open>jwt.verify\<close> belongs to a library; it is the parameter \<open>verify\<close>, which returns the
  decoded payload, or \<open>None\<close> where the library throws (bad signature, expired token).
\<close>

fun js_split :: "char \<Rightarrow> string \<Rightarrow> string list" where
  "js_split c [] = [[]]"
| "js_split c (x # xs) =
     (if x = c then [] # js_split c xs
      else (case js_split c xs of [] \<Rightarrow> [[x]] | w # ws \<Rightarrow> (x # w) # ws))"

definition bearer_token :: "string option \<Rightarrow> string option" where
  "bearer_token authHeader =
     (case authHeader of
        None \<Rightarrow> None
      | Some h \<Rightarrow>
          (if h = [] then None
           else (case js_split CHR '' '' h of
                   a # t # _ \<Rightarrow> (if t = [] then None else Some t)
                 | _ \<Rightarrow> None)))"

definition authenticateToken :: "(string \<Rightarrow> user option) \<Rightarrow> string option \<Rightarrow> response + user" where
  "authenticateToken verify authHeader =
     (case bearer_token authHeader of
        None \<Rightarrow> Inl (json_error 401 ''Access token required'')
      | Some token \<Rightarrow>
          (case verify token of
             None \<Rightarrow> Inl (json_error 403 ''Invalid or expired token'')
           | Some decoded \<Rightarrow> Inr decoded))"


text \<open>
  \<^verbatim>\<open>requireSameCollege\<close>: the account is looked up by id in the table that the credential's role
  names, and \<^verbatim>\<open>req.user.college_id\<close> is overwritten with the row's college. The two role blocks
  are consecutive \<^verbatim>\<open>if\<close>s; a role that is none of the three passes with the credential unchanged.
\<close>

definition requireSameCollege :: "db \<Rightarrow> user option \<Rightarrow> response + user" where
  "requireSameCollege d req_user =
     (case req_user of
        None \<Rightarrow> Inl (json_error 401 ''Authentication required'')
      | Some u \<Rightarrow>
          (if user_role u = ''admin'' \<or> user_role u = ''super_admin'' then
             (case [a \<leftarrow> admins d. ad_id a = user_id u] of
                [] \<Rightarrow> Inl (json_error 403 ''Admin account not found or inactive'')
              | a # _ \<Rightarrow>
                  (if \<not> js_truthy (ad_is_active a)
                   then Inl (json_error 403 ''Admin account not found or inactive'')
                   else Inr (u\<lparr>user_college_id := ad_college_id a\<rparr>)))
           else if user_role u = ''student'' then
             (case [s \<leftarrow> students d. st_id s = user_id u] of
                [] \<Rightarrow> Inl (json_error 403 ''Student account not found or inactive'')
              | s # _ \<Rightarrow>
                  (if \<not> js_truthy (st_is_active s)
                   then Inl (json_error 403 ''Student account not found or inactive'')
                   else Inr (u\<lparr>user_college_id := st_college_id s\<rparr>)))
           else Inr u))"

section \<open>Registration (routes/registration.js)\<close>

text \<open>
  Both migration scripts declare \<^verbatim>\<open>UNIQUE KEY unique_registration (event_id, student_id)\<close>:
  an \<^verbatim>\<open>INSERT\<close> of a pair that has a row already, whatever its status, throws, and the table
  is left as it was. \<open>None\<close> is the thrown error.
\<close>

definition has_registration :: "db \<Rightarrow> int \<Rightarrow> int \<Rightarrow> bool" where
  "has_registration d event_id student_id =
     list_ex (\<lambda>r. reg_event_id r = event_id \<and> reg_student_id r = student_id) (registrations d)"

definition insert_registration :: "db \<Rightarrow> registration_row \<Rightarrow> db option" where
  "insert_registration d r =
     (if has_registration d (reg_event_id r) (reg_student_id r) then None
      else Some (d\<lparr>registrations := registrations d @ [r]\<rparr>))"

text \<open>\<^verbatim>\<open>SELECT max_participants FROM events WHERE id = ? AND college_id = ?\<close>.\<close>

definition tenant_events :: "db \<Rightarrow> int \<Rightarrow> int \<Rightarrow> event_row list" where
  "tenant_events d event_id college_id =
     [e \<leftarrow> events d. ev_id e = event_id \<and> ev_college_id e = college_id]"

definition registered_rows :: "db \<Rightarrow> int \<Rightarrow> registration_row list" where
  "registered_rows d event_id =
     [r \<leftarrow> registrations d. reg_event_id r = event_id \<and> reg_status r = Registered]"

definition registered_count :: "db \<Rightarrow> int \<Rightarrow> int" where
  "registered_count d event_id =
     int (length (registered_rows d event_id))"

definition waitlisted_rows :: "db \<Rightarrow> int \<Rightarrow> registration_row list" where
  "waitlisted_rows d event_id =
     [r \<leftarrow> registrations d. reg_event_id r = event_id \<and> reg_status r = Waitlisted]"

definition max_position :: "db \<Rightarrow> int \<Rightarrow> int option" where
  "max_position d event_id = sql_max (map waitlist_position (waitlisted_rows d event_id))"

text \<open>
  The decision between admission and the waitlist (the \<^verbatim>\<open>let status\<close> block): the status is
  \<^verbatim>\<open>'registered'\<close> and the position \<^verbatim>\<open>null\<close> unless \<^verbatim>\<open>count >= capacity\<close>.
\<close>

definition admission_decision :: "db \<Rightarrow> int option \<Rightarrow> int \<Rightarrow> reg_status \<times> int option" where
  "admission_decision d capacity event_id =
     (if js_ge (registered_count d event_id) capacity
      then (Waitlisted, Some (js_or_zero (max_position d event_id) + 1))
      else (Registered, None))"

text \<open>The handler of \<^verbatim>\<open>POST /\<close>, run with the \<^verbatim>\<open>req.user\<close> the guard leaves.\<close>

definition register_handler :: "db \<Rightarrow> user \<Rightarrow> int \<Rightarrow> response \<times> db" where
  "register_handler d u event_id =
     (if user_role u \<noteq> ''student'' then (json_error 403 ''Only students can register'', d)
      else
        (case tenant_events d event_id (user_college_id u) of
           [] \<Rightarrow> (json_error 404 ''Event not found'', d)
         | e # _ \<Rightarrow>
             (let capacity = max_participants e;
                  (status, position) = admission_decision d capacity event_id
              in (case insert_registration d
                        \<lparr>reg_college_id = user_college_id u, reg_event_id = event_id,
                         reg_student_id = user_id u, reg_status = status,
                         waitlist_position = position\<rparr> of
                    None \<Rightarrow> (json_error 500 ''Failed to register'', d)
                  | Some d' \<Rightarrow>
                      (Response 200
                         [(''message'', JStr (''Registration '' @ status_name status)),
                          (''waitlist_position'', json_of_int_option position)], d')))))"

text \<open>The route: \<^verbatim>\<open>requireSameCollege\<close>, then the handler.\<close>

definition register_route :: "db \<Rightarrow> user \<Rightarrow> int \<Rightarrow> response \<times> db" where
  "register_route d u event_id =
     (case requireSameCollege d (Some u) of
        Inl r \<Rightarrow> (r, d)
      | Inr u' \<Rightarrow> register_handler d u' event_id)"

text \<open>Requests served one after the other, each on the store the previous one left.\<close>

fun register_all :: "db \<Rightarrow> (user \<times> int) list \<Rightarrow> response list \<times> db" where
  "register_all d [] = ([], d)"
| "register_all d ((u, event_id) # reqs) =
     (let (r, d') = register_route d u event_id;
          (rs, d'') = register_all d' reqs
      in (r # rs, d''))"

section \<open>QR check-in (routes/attendance.js)\<close>

text \<open>
  The parsed QR payload \<^verbatim>\<open>{event_id, secret, college_id}\<close>. The handler receives the outcome of
  \<^verbatim>\<open>JSON.parse(qr_data)\<close>: \<open>None\<close> stands for a \<^verbatim>\<open>qr_data\<close> that does not parse to such an
  object, where the handler throws into its \<^verbatim>\<open>catch\<close>.
\<close>

record qr_payload =
  qrp_event_id :: int
  qrp_secret :: string
  qrp_college_id :: int

text \<open>\<^verbatim>\<open>SELECT id FROM events WHERE id = ? AND qr_secret = ? AND college_id = ?\<close>.\<close>

definition qr_events :: "db \<Rightarrow> qr_payload \<Rightarrow> event_row list" where
  "qr_events d qr =
     [e \<leftarrow> events d. ev_id e = qrp_event_id qr \<and> qr_secret e = Some (qrp_secret qr)
                      \<and> ev_college_id e = qrp_college_id qr]"

text \<open>\<^verbatim>\<open>SELECT id FROM attendance WHERE event_id = ? AND student_id = ?\<close> returns a row.\<close>

definition has_attendance :: "db \<Rightarrow> int \<Rightarrow> int \<Rightarrow> bool" where
  "has_attendance d event_id student_id =
     list_ex (\<lambda>a. att_event_id a = event_id \<and> att_student_id a = student_id) (attendance d)"

text \<open>
  The handler of \<^verbatim>\<open>POST /qr-checkin\<close>; \<open>now\<close> is the \<^verbatim>\<open>CURRENT_TIMESTAMP\<close> that the insert
  stores in \<^verbatim>\<open>checked_in_at\<close>.
\<close>

definition qr_checkin_handler :: "db \<Rightarrow> int \<Rightarrow> user \<Rightarrow> qr_payload option \<Rightarrow> response \<times> db" where
  "qr_checkin_handler d now u qr_data =
     (if user_role u \<noteq> ''student'' then (json_error 403 ''Only students can check in'', d)
      else
        (case qr_data of
           None \<Rightarrow> (json_error 500 ''Failed to check in'', d)
         | Some qr \<Rightarrow>
             (if qr_events d qr = [] then (json_error 400 ''Invalid QR code'', d)
              else if has_attendance d (qrp_event_id qr) (user_id u)
              then (json_error 400 ''Already checked in'', d)
              else (json_message ''Checked in successfully'',
                    d\<lparr>attendance := attendance d @
                         [\<lparr>att_college_id = user_college_id u, att_event_id = qrp_event_id qr,
                           att_student_id = user_id u, checked_in_at = now\<rparr>]\<rparr>))))"

definition qr_checkin_route :: "db \<Rightarrow> int \<Rightarrow> user \<Rightarrow> qr_payload option \<Rightarrow> response \<times> db" where
  "qr_checkin_route d now u qr_data =
     (case requireSameCollege d (Some u) of
        Inl r \<Rightarrow> (r, d)
      | Inr u' \<Rightarrow> qr_checkin_handler d now u' qr_data)"

section \<open>Request validation\<close>

text \<open>
  The answer of a handler whose \<^verbatim>\<open>validationResult\<close> is not empty: status 400 and the array
  of errors, each error kept as the path of the field it is about.
\<close>

definition validation_failed :: "string list \<Rightarrow> response" where
  "validation_failed paths =
     Response 400 [(''errors'', JArr (map (\<lambda>p. JObj [(''path'', JStr p)]) paths))]"

section \<open>Notes (routes/notes.js)\<close>

text \<open>\<^verbatim>\<open>body('content').notEmpty().isLength({ max: 5000 })\<close>.\<close>

definition note_errors :: "string \<Rightarrow> string list" where
  "note_errors content_text =
     (if content_text = [] \<or> length content_text > 5000 then [''content''] else [])"

definition has_note :: "db \<Rightarrow> int \<Rightarrow> int \<Rightarrow> bool" where
  "has_note d event_id student_id =
     list_ex (\<lambda>n. note_event_id n = event_id \<and> note_student_id n = student_id) (notes_table d)"

text \<open>\<^verbatim>\<open>UPDATE notes SET content = ? WHERE event_id = ? AND student_id = ?\<close>.\<close>

definition update_notes :: "note_row list \<Rightarrow> int \<Rightarrow> int \<Rightarrow> string \<Rightarrow> note_row list" where
  "update_notes ns event_id student_id content_text =
     map (\<lambda>n. if note_event_id n = event_id \<and> note_student_id n = student_id
              then n\<lparr>note_content := content_text\<rparr> else n) ns"

definition notes_handler :: "db \<Rightarrow> user \<Rightarrow> int \<Rightarrow> string \<Rightarrow> response \<times> db" where
  "notes_handler d u event_id content_text =
     (if user_role u \<noteq> ''student'' then (json_error 403 ''Only students can create notes'', d)
      else if note_errors content_text \<noteq> [] then (validation_failed (note_errors content_text), d)
      else if \<not> list_ex (\<lambda>r. reg_event_id r = event_id \<and> reg_student_id r = user_id u
                               \<and> reg_college_id r = user_college_id u) (registrations d)
      then (json_error 400 ''Can only create notes for events you are registered for'', d)
      else if has_note d event_id (user_id u)
      then (json_message ''Note updated successfully'',
            d\<lparr>notes_table := update_notes (notes_table d) event_id (user_id u) content_text\<rparr>)
      else (json_message ''Note created successfully'',
            d\<lparr>notes_table := notes_table d @
                 [\<lparr>note_event_id = event_id, note_student_id = user_id u,
                   note_content = content_text\<rparr>]\<rparr>))"

definition notes_route :: "db \<Rightarrow> user \<Rightarrow> int \<Rightarrow> string \<Rightarrow> response \<times> db" where
  "notes_route d u event_id content_text =
     (case requireSameCollege d (Some u) of
        Inl r \<Rightarrow> (r, d)
      | Inr u' \<Rightarrow> notes_handler d u' event_id content_text)"

section \<open>Feedback (routes/feedback.js)\<close>

text \<open>
  The body of \<^verbatim>\<open>POST /feedback\<close>, with every field supplied; \<open>None\<close> is a JSON \<^verbatim>\<open>null\<close>.
\<close>

record feedback_body =
  fbb_event_id :: int
  fbb_rating :: int
  fbb_comments :: "string option"
  fbb_suggestions :: "string option"
  fbb_anonymous :: bool

fun too_long :: "nat \<Rightarrow> string option \<Rightarrow> bool" where
  "too_long n None = False"
| "too_long n (Some t) = (length t > n)"

definition feedback_errors :: "feedback_body \<Rightarrow> string list" where
  "feedback_errors b =
     (if fbb_rating b < 1 \<or> fbb_rating b > 5 then [''rating''] else []) @
     (if too_long 1000 (fbb_comments b) then [''comments''] else []) @
     (if too_long 1000 (fbb_suggestions b) then [''suggestions''] else [])"

definition has_feedback :: "db \<Rightarrow> int \<Rightarrow> int \<Rightarrow> bool" where
  "has_feedback d event_id student_id =
     list_ex (\<lambda>f. fb_event_id f = event_id \<and> fb_student_id f = student_id) (feedback d)"

text \<open>
  The handler of \<^verbatim>\<open>POST /\<close>; \<open>insert_id\<close> is the AUTO_INCREMENT id that the database gives the
  new row (\<^verbatim>\<open>result.insertId\<close>).
\<close>

definition feedback_handler :: "db \<Rightarrow> int \<Rightarrow> user \<Rightarrow> feedback_body \<Rightarrow> response \<times> db" where
  "feedback_handler d insert_id u b =
     (if user_role u \<noteq> ''student'' then (json_error 403 ''Only students can submit feedback'', d)
      else if feedback_errors b \<noteq> [] then (validation_failed (feedback_errors b), d)
      else if \<not> list_ex (\<lambda>a. att_event_id a = fbb_event_id b \<and> att_student_id a = user_id u
                               \<and> att_college_id a = user_college_id u) (attendance d)
      then (json_error 400 ''Can only provide feedback for events you attended'', d)
      else if has_feedback d (fbb_event_id b) (user_id u)
      then (json_error 400 ''Feedback already submitted for this event'', d)
      else (Response 201 [(''message'', JStr ''Feedback submitted successfully''),
                          (''feedback_id'', JInt insert_id)],
            d\<lparr>feedback := feedback d @
                 [\<lparr>fb_id = insert_id, fb_college_id = user_college_id u,
                   fb_event_id = fbb_event_id b, fb_student_id = user_id u,
                   fb_rating = fbb_rating b, fb_comments = fbb_comments b,
                   fb_suggestions = fbb_suggestions b, fb_anonymous = fbb_anonymous b\<rparr>]\<rparr>))"

definition feedback_route :: "db \<Rightarrow> int \<Rightarrow> user \<Rightarrow> feedback_body \<Rightarrow> response \<times> db" where
  "feedback_route d insert_id u b =
     (case requireSameCollege d (Some u) of
        Inl r \<Rightarrow> (r, d)
      | Inr u' \<Rightarrow> feedback_handler d insert_id u' b)"

section \<open>Login (routes/auth.js)\<close>

text \<open>
  The columns of an account row that login reads, from either table. \<^verbatim>\<open>bcrypt.compare\<close>,
  \<^verbatim>\<open>jwt.sign\<close> and the validator's \<^verbatim>\<open>isEmail\<close> belong to libraries: they are the parameters
  \<open>compare\<close>, \<open>sign\<close> and \<open>is_email\<close>.
\<close>

record account =
  acc_id :: int
  acc_college_id :: int
  acc_email :: string
  acc_password_hash :: string

definition admin_account :: "admin_row \<Rightarrow> account" where
  "admin_account a =
     \<lparr>acc_id = ad_id a, acc_college_id = ad_college_id a, acc_email = ad_email a,
      acc_password_hash = ad_password_hash a\<rparr>"

definition student_account :: "student_row \<Rightarrow> account" where
  "student_account s =
     \<lparr>acc_id = st_id s, acc_college_id = st_college_id s, acc_email = st_email s,
      acc_password_hash = st_password_hash s\<rparr>"

text \<open>\<^verbatim>\<open>SELECT * FROM admins WHERE email = ?\<close> and the same on \<^verbatim>\<open>students\<close>.\<close>

definition admins_by_email :: "db \<Rightarrow> string \<Rightarrow> account list" where
  "admins_by_email d email = map admin_account [a \<leftarrow> admins d. ad_email a = email]"

definition students_by_email :: "db \<Rightarrow> string \<Rightarrow> account list" where
  "students_by_email d email = map student_account [s \<leftarrow> students d. st_email s = email]"

definition login_errors :: "(string \<Rightarrow> bool) \<Rightarrow> string \<Rightarrow> string \<Rightarrow> string list" where
  "login_errors is_email email password =
     (if \<not> is_email email then [''email''] else []) @
     (if password = [] then [''password''] else [])"

definition login_handler ::
  "(string \<Rightarrow> bool) \<Rightarrow> (string \<Rightarrow> string \<Rightarrow> bool) \<Rightarrow> (user \<Rightarrow> string) \<Rightarrow> db \<Rightarrow> string \<Rightarrow> string
     \<Rightarrow> response" where
  "login_handler is_email compare sign d email password =
     (if login_errors is_email email password \<noteq> []
      then validation_failed (login_errors is_email email password)
      else
        (let adminRows = admins_by_email d email;
             (userRows, userRole) =
               (if adminRows = [] then (students_by_email d email, ''student'')
                else (adminRows, ''admin''))
         in (case userRows of
               [] \<Rightarrow> json_error 401 ''Invalid credentials''
             | usr # _ \<Rightarrow>
                 (if \<not> compare password (acc_password_hash usr)
                  then json_error 401 ''Invalid credentials''
                  else
                    Response 200
                      [(''message'', JStr ''Login successful''),
                       (''token'', JStr (sign \<lparr>user_id = acc_id usr,
                                               user_college_id = acc_college_id usr,
                                               user_role = userRole\<rparr>)),
                       (''user'', JObj [(''id'', JInt (acc_id usr)),
                                       (''email'', JStr (acc_email usr)),
                                       (''role'', JStr userRole)])]))))"

section \<open>Reports (routes/report.js)\<close>





















section \<open>Vocabulary of the statements\<close>

text \<open>
  The next waitlist position as the specification words it: the maximum position among the
  event's waitlisted registrations plus 1, or 1 when there is none.
\<close>

definition spec_next_position :: "db \<Rightarrow> int \<Rightarrow> int" where
  "spec_next_position d event_id =
     (case non_null (map waitlist_position (waitlisted_rows d event_id)) of
        [] \<Rightarrow> 1
      | p # ps \<Rightarrow> Max (set (p # ps)) + 1)"

text \<open>
  The precondition of admission as the specification words it: the (event, student) pair has
  no registration that is not cancelled. No route writes the status \<^verbatim>\<open>cancelled\<close>; a store
  without such rows is the kind the routes build.
\<close>

definition has_active_registration :: "db \<Rightarrow> int \<Rightarrow> int \<Rightarrow> bool" where
  "has_active_registration d event_id student_id =
     list_ex (\<lambda>r. reg_event_id r = event_id \<and> reg_student_id r = student_id
                  \<and> reg_status r \<noteq> Cancelled) (registrations d)"

definition no_cancelled :: "db \<Rightarrow> bool" where
  "no_cancelled d = list_all (\<lambda>r. reg_status r \<noteq> Cancelled) (registrations d)"

text \<open>A response that reports a place on the waitlist.\<close>

definition waitlisted_response :: "response \<Rightarrow> bool" where
  "waitlisted_response r = (res_field r ''message'' = Some (JStr ''Registration waitlisted''))"

text \<open>The requests of the students \<open>us\<close>, in this order, for one event.\<close>

definition requests_for :: "int \<Rightarrow> user list \<Rightarrow> (user \<times> int) list" where
  "requests_for event_id us = map (\<lambda>u. (u, event_id)) us"

text \<open>
  The account record of a credential: the \<^verbatim>\<open>college_id\<close> and \<^verbatim>\<open>is_active\<close> columns of the row
  with the credential's id, in the table of the credential's role. It is usable when it exists
  and is active.
\<close>

definition account_record :: "db \<Rightarrow> user \<Rightarrow> (int \<times> int option) option" where
  "account_record d u =
     (if user_role u = ''admin'' \<or> user_role u = ''super_admin'' then
        (case [a \<leftarrow> admins d. ad_id a = user_id u] of
           [] \<Rightarrow> None | a # _ \<Rightarrow> Some (ad_college_id a, ad_is_active a))
      else if user_role u = ''student'' then
        (case [s \<leftarrow> students d. st_id s = user_id u] of
           [] \<Rightarrow> None | s # _ \<Rightarrow> Some (st_college_id s, st_is_active s))
      else None)"

definition account_usable :: "db \<Rightarrow> user \<Rightarrow> bool" where
  "account_usable d u =
     (case account_record d u of None \<Rightarrow> False | Some (c, active) \<Rightarrow> js_truthy active)"

text \<open>The three roles of the guard's contract.\<close>

definition known_role :: "user \<Rightarrow> bool" where
  "known_role u = (user_role u = ''student'' \<or> user_role u = ''admin'' \<or> user_role u = ''super_admin'')"

text \<open>A middleware that answers with the given status instead of calling the handler.\<close>

definition rejected_with :: "nat \<Rightarrow> response + user \<Rightarrow> bool" where
  "rejected_with c r = (case r of Inl e \<Rightarrow> res_status e = c | Inr u \<Rightarrow> False)"

text \<open>The preconditions of the notes and feedback handlers, as the guard's user meets them.\<close>

definition registered_for :: "db \<Rightarrow> int \<Rightarrow> user \<Rightarrow> bool" where
  "registered_for d event_id u =
     list_ex (\<lambda>r. reg_event_id r = event_id \<and> reg_student_id r = user_id u
                  \<and> reg_college_id r = user_college_id u) (registrations d)"

definition attended :: "db \<Rightarrow> int \<Rightarrow> user \<Rightarrow> bool" where
  "attended d event_id u =
     list_ex (\<lambda>a. att_event_id a = event_id \<and> att_student_id a = user_id u
                  \<and> att_college_id a = user_college_id u) (attendance d)"





section \<open>Sample stores\<close>

text \<open>
  Two colleges; event 1 has two places, event 2 has a NULL \<^verbatim>\<open>max_participants\<close>, event 3
  belongs to the other college and has capacity 0. Student 4 is deactivated.
\<close>

definition demo_db :: db where
  "demo_db =
     \<lparr>events =
        [\<lparr>ev_id = 1, ev_college_id = 1, ev_title = ''Hackathon'', max_participants = Some 2,
          qr_secret = Some ''s3cr3t''\<rparr>,
         \<lparr>ev_id = 2, ev_college_id = 1, ev_title = ''Open day'', max_participants = None,
          qr_secret = None\<rparr>,
         \<lparr>ev_id = 3, ev_college_id = 2, ev_title = ''Away day'', max_participants = Some 0,
          qr_secret = Some ''k3y''\<rparr>],
      students =
        [\<lparr>st_id = 1, st_college_id = 1, st_email = ''a@x.org'', st_password_hash = ''h1'',
          st_first_name = ''Ada'', st_last_name = ''A'', st_is_active = Some 1\<rparr>,
         \<lparr>st_id = 2, st_college_id = 1, st_email = ''b@x.org'', st_password_hash = ''h2'',
          st_first_name = ''Bob'', st_last_name = ''B'', st_is_active = Some 1\<rparr>,
         \<lparr>st_id = 3, st_college_id = 1, st_email = ''c@x.org'', st_password_hash = ''h3'',
          st_first_name = ''Cyd'', st_last_name = ''C'', st_is_active = Some 1\<rparr>,
         \<lparr>st_id = 4, st_college_id = 1, st_email = ''d@x.org'', st_password_hash = ''h4'',
          st_first_name = ''Dee'', st_last_name = ''D'', st_is_active = Some 0\<rparr>,
         \<lparr>st_id = 5, st_college_id = 2, st_email = ''e@y.org'', st_password_hash = ''h5'',
          st_first_name = ''Eve'', st_last_name = ''E'', st_is_active = Some 1\<rparr>],
      admins =
        [\<lparr>ad_id = 1, ad_college_id = 1, ad_email = ''root@x.org'', ad_password_hash = ''g1'',
          ad_is_active = Some 1\<rparr>,
         \<lparr>ad_id = 2, ad_college_id = 2, ad_email = ''e@y.org'', ad_password_hash = ''g2'',
          ad_is_active = Some 1\<rparr>],
      registrations = [], attendance = [], feedback = [], notes_table = []\<rparr>"

definition student :: "int \<Rightarrow> int \<Rightarrow> user" where
  "student i c = \<lparr>user_id = i, user_college_id = c, user_role = ''student''\<rparr>"

text \<open>Student 1 is registered for event 1.\<close>

definition duplicate_db :: db where
  "duplicate_db = demo_db\<lparr>registrations :=
     [\<lparr>reg_college_id = 1, reg_event_id = 1, reg_student_id = 1, reg_status = Registered,
       waitlist_position = None\<rparr>]\<rparr>"


definition three_students :: "user list" where
  "three_students = [student 1 1, student 2 1, student 3 1]"

text \<open>
  QR payloads for event 1: one with a guessed secret, one with the right secret, one with the
  right secret and another college.
\<close>

definition wrong_secret :: qr_payload where
  "wrong_secret = \<lparr>qrp_event_id = 1, qrp_secret = ''guess'', qrp_college_id = 1\<rparr>"

definition right_secret :: qr_payload where
  "right_secret = \<lparr>qrp_event_id = 1, qrp_secret = ''s3cr3t'', qrp_college_id = 1\<rparr>"

text \<open>Student 1 has checked in at event 1.\<close>

definition wrong_college :: qr_payload where
  "wrong_college = \<lparr>qrp_event_id = 1, qrp_secret = ''s3cr3t'', qrp_college_id = 2\<rparr>"

definition attended_db :: db where
  "attended_db = demo_db\<lparr>attendance :=
     [\<lparr>att_college_id = 1, att_event_id = 1, att_student_id = 1, checked_in_at = 100\<rparr>]\<rparr>"

text \<open>Student 1 attended event 1, rated it 2 and wrote a note.\<close>

definition reviewed_db :: db where
  "reviewed_db = demo_db\<lparr>
     registrations :=
       [\<lparr>reg_college_id = 1, reg_event_id = 1, reg_student_id = 1, reg_status = Registered,
         waitlist_position = None\<rparr>],
     attendance :=
       [\<lparr>att_college_id = 1, att_event_id = 1, att_student_id = 1, checked_in_at = 100\<rparr>],
     feedback :=
       [\<lparr>fb_id = 1, fb_college_id = 1, fb_event_id = 1, fb_student_id = 1, fb_rating = 2,
         fb_comments = Some ''dull'', fb_suggestions = None, fb_anonymous = False\<rparr>],
     notes_table :=
       [\<lparr>note_event_id = 1, note_student_id = 1, note_content = ''bring laptop''\<rparr>]\<rparr>"

definition better_rating :: feedback_body where
  "better_rating = \<lparr>fbb_event_id = 1, fbb_rating = 5, fbb_comments = Some ''great'',
                    fbb_suggestions = None, fbb_anonymous = False\<rparr>"



text \<open>
  Stand-ins for the library functions. Token \<^verbatim>\<open>t4\<close> is the deactivated student 4's; token
  \<^verbatim>\<open>t3\<close> is student 3's and names a college that is not the student's.
\<close>

definition demo_verify :: "string \<Rightarrow> user option" where
  "demo_verify token =
     (if token = ''t4'' then Some (student 4 1)
      else if token = ''t3'' then Some (student 3 7)
      else None)"

definition demo_is_email :: "string \<Rightarrow> bool" where
  "demo_is_email email = (CHR ''@'' \<in> set email)"

definition demo_compare :: "string \<Rightarrow> string \<Rightarrow> bool" where
  "demo_compare password password_hash = (password_hash = password)"

definition demo_sign :: "user \<Rightarrow> string" where
  "demo_sign u = ''signed-'' @ user_role u"

section \<open>Registration: properties\<close>

lemmas demo_eval = demo_db_def student_def requireSameCollege_def tenant_events_def
  has_registration_def registered_count_def registered_rows_def waitlisted_rows_def

lemma registered_count_nonneg: "0 \<le> registered_count d e"
  by (simp add: registered_count_def)

lemma filter_registered_append_waitlisted:
  "reg_status r = Waitlisted \<Longrightarrow> registered_rows (d\<lparr>registrations := registrations d @ [r]\<rparr>) e = registered_rows d e"
  by (simp add: registered_rows_def)

lemma next_position_spec: "js_or_zero (max_position d e) + 1 = spec_next_position d e"
  by (simp add: js_or_zero_def max_position_def sql_max_def spec_next_position_def
      Max.set_eq_fold[symmetric] split: list.splits)

text \<open>
  On a store without cancelled rows, having a registration row and having a registration that
  is not cancelled are the same, and the registration route keeps the store that way.
\<close>

lemma has_registration_active:
  "no_cancelled d \<Longrightarrow> has_registration d e s = has_active_registration d e s"
  by (auto simp: no_cancelled_def has_registration_def has_active_registration_def
      list_all_iff list_ex_iff)

lemma register_route_no_cancelled:
  assumes "no_cancelled d"
  shows "no_cancelled (snd (register_route d u event_id))"
proof (cases "requireSameCollege d (Some u)")
  case (Inl r)
  with assms show ?thesis by (simp add: register_route_def)
next
  case (Inr u')
  with assms show ?thesis
    by (auto simp: register_route_def register_handler_def admission_decision_def
        insert_registration_def no_cancelled_def split: list.splits)
qed



text \<open>
  Claim C3. A student who is registered for an event and asks again is expected to get a
  Conflict answer and no second row. No second row is created, but the handler has no check of
  its own: the unique key throws, and the answer is the generic 500 \<^verbatim>\<open>Failed to register\<close>.
\<close>

theorem register_duplicate_internal_error:
  "has_registration duplicate_db 1 1
   \<and> register_route duplicate_db (student 1 1) 1 =
       (json_error 500 ''Failed to register'', duplicate_db)
   \<and> res_status (fst (register_route duplicate_db (student 1 1) 1)) = 500"
  by (simp add: duplicate_db_def demo_eval register_route_def register_handler_def
      insert_registration_def admission_decision_def js_ge_def json_error_def)

lemma decision_without_capacity:
  assumes "max_participants e = None \<or> max_participants e = Some 0"
  shows "admission_decision d (max_participants e) event_id =
           (Waitlisted, Some (spec_next_position d event_id))"
  using assms registered_count_nonneg [of d event_id]
  by (auto simp: admission_decision_def js_ge_def next_position_spec)

text \<open>
  Claim C10. For an event whose \<^verbatim>\<open>max_participants\<close> is 0 or NULL, the decision of every
  admission request is \<^verbatim>\<open>waitlisted\<close>, whatever the store holds (also with no registration at
  all); the response never reports \<^verbatim>\<open>registered\<close>, no \<^verbatim>\<open>registered\<close> row is added for the
  event, and a student without a row for the event is put on the waitlist.
\<close>

theorem no_capacity_always_waitlisted:
  assumes guard: "requireSameCollege d (Some u) = Inr u'"
    and ev: "tenant_events d event_id (user_college_id u') = e # es"
    and cap: "max_participants e = None \<or> max_participants e = Some 0"
  shows "fst (admission_decision d (max_participants e) event_id) = Waitlisted
     \<and> res_field (fst (register_route d u event_id)) ''message''
           \<noteq> Some (JStr ''Registration registered'')
     \<and> registered_rows (snd (register_route d u event_id)) event_id = registered_rows d event_id
     \<and> (user_role u' = ''student'' \<and> \<not> has_registration d event_id (user_id u') \<longrightarrow>
          register_route d u event_id =
            (Response 200 [(''message'', JStr ''Registration waitlisted''),
                           (''waitlist_position'', JInt (spec_next_position d event_id))],
             d\<lparr>registrations := registrations d @
                  [\<lparr>reg_college_id = user_college_id u', reg_event_id = event_id,
                    reg_student_id = user_id u', reg_status = Waitlisted,
                    waitlist_position = Some (spec_next_position d event_id)\<rparr>]\<rparr>))"
proof -
  note dec = decision_without_capacity [OF cap, of d event_id]
  have route: "register_route d u event_id = register_handler d u' event_id"
    using guard by (simp add: register_route_def)
  have a: "fst (admission_decision d (max_participants e) event_id) = Waitlisted"
    by (simp add: dec)
  have b: "res_field (fst (register_handler d u' event_id)) ''message''
             \<noteq> Some (JStr ''Registration registered'')"
    using ev dec
    by (simp add: register_handler_def insert_registration_def json_error_def)
  have c: "registered_rows (snd (register_handler d u' event_id)) event_id
             = registered_rows d event_id"
    using ev dec
    by (simp add: register_handler_def insert_registration_def
        filter_registered_append_waitlisted)
  have e: "user_role u' = ''student'' \<and> \<not> has_registration d event_id (user_id u') \<longrightarrow>
          register_handler d u' event_id =
            (Response 200 [(''message'', JStr ''Registration waitlisted''),
                           (''waitlist_position'', JInt (spec_next_position d event_id))],
             d\<lparr>registrations := registrations d @
                  [\<lparr>reg_college_id = user_college_id u', reg_event_id = event_id,
                    reg_student_id = user_id u', reg_status = Waitlisted,
                    waitlist_position = Some (spec_next_position d event_id)\<rparr>]\<rparr>)"
    using ev dec
    by (simp add: register_handler_def insert_registration_def)
  from a b c e show ?thesis
    unfolding route by blast
qed

theorem no_capacity_always_waitlisted_witness:
  "fst (admission_decision demo_db None 2) = Waitlisted
   \<and> registered_count demo_db 2 = 0
   \<and> register_route demo_db (student 1 1) 2 =
        (Response 200 [(''message'', JStr ''Registration waitlisted''),
                       (''waitlist_position'', JInt 1)],
         demo_db\<lparr>registrations :=
            [\<lparr>reg_college_id = 1, reg_event_id = 2, reg_student_id = 1,
              reg_status = Waitlisted, waitlist_position = Some 1\<rparr>]\<rparr>)"
proof -
  have g: "requireSameCollege demo_db (Some (student 1 1)) = Inr (student 1 1)"
    by (simp add: demo_eval)
  have e: "tenant_events demo_db 2 (user_college_id (student 1 1)) = (events demo_db ! 1) # []"
    by (simp add: demo_eval)
  have c: "max_participants (events demo_db ! 1) = None
           \<or> max_participants (events demo_db ! 1) = Some 0"
    by (simp add: demo_db_def)
  have v: "max_participants (events demo_db ! 1) = None" "spec_next_position demo_db 2 = 1"
    "registered_count demo_db 2 = 0" "\<not> has_registration demo_db 2 1"
    "registrations demo_db = []"
    by (simp_all add: demo_eval spec_next_position_def)
  from no_capacity_always_waitlisted [OF g e c] v show ?thesis
    by (simp add: student_def)
qed

lemma non_null_map_Some: "non_null (map Some xs) = xs"
  by (induction xs) simp_all

lemma js_or_zero_dense:
  assumes "0 \<le> k"
  shows "js_or_zero (sql_max (map Some [1..k])) = k"
proof (cases "k = 0")
  case True
  then show ?thesis by (simp add: sql_max_def js_or_zero_def)
next
  case False
  with assms have k: "1 \<le> k" by simp
  then have ne: "[1..k] \<noteq> []" by simp
  then obtain y ys where ys: "[1..k] = y # ys" by (cases "[1..k]") auto
  have "fold max ys y = Max (set [1..k])"
    unfolding ys by (rule Max.set_eq_fold [symmetric])
  also have "\<dots> = k"
    using k by (auto intro: Max_eqI)
  finally show ?thesis
    using k by (simp add: sql_max_def non_null_map_Some ys js_or_zero_def)
qed

lemma guard_keeps_id:
  "requireSameCollege d (Some u) = Inr u' \<Longrightarrow> user_id u' = user_id u"
  by (auto simp: requireSameCollege_def split: if_splits list.splits)

lemma waitlisted_rows_append:
  "waitlisted_rows (d\<lparr>registrations := registrations d @ [r]\<rparr>) e =
     waitlisted_rows d e @ (if reg_event_id r = e \<and> reg_status r = Waitlisted then [r] else [])"
  by (simp add: waitlisted_rows_def)

lemma register_route_waitlisted_step:
  assumes "register_route d u e = (r, d')" and "waitlisted_response r"
  shows "map waitlist_position (waitlisted_rows d' e) =
           map waitlist_position (waitlisted_rows d e) @ [Some (js_or_zero (max_position d e) + 1)]
       \<and> map reg_student_id (waitlisted_rows d' e) =
           map reg_student_id (waitlisted_rows d e) @ [user_id u]"
proof (cases "requireSameCollege d (Some u)")
  case (Inl a)
  with assms show ?thesis
    by (auto simp: register_route_def waitlisted_response_def requireSameCollege_def
        json_error_def split: if_splits list.splits)
next
  case (Inr u')
  note id = guard_keeps_id [OF Inr]
  from assms Inr have h: "register_handler d u' e = (r, d')"
    by (simp add: register_route_def)
  then show ?thesis
    using assms(2) id
    by (auto simp: register_handler_def waitlisted_response_def json_error_def
        admission_decision_def insert_registration_def waitlisted_rows_append
        split: if_splits list.splits)
qed

lemma upto_snoc: "0 \<le> k \<Longrightarrow> [1..k] @ [k + 1] = [1..k + 1]"
  by (simp add: upto_rec2 [of 1 "k + 1"])

lemma register_all_dense:
  assumes "0 \<le> k"
    and "map waitlist_position (waitlisted_rows d e) = map Some [1..k]"
    and "register_all d (requests_for e us) = (rs, d')"
    and "list_all waitlisted_response rs"
  shows "map waitlist_position (waitlisted_rows d' e) = map Some [1..k + int (length us)]
       \<and> map reg_student_id (waitlisted_rows d' e) =
           map reg_student_id (waitlisted_rows d e) @ map user_id us"
  using assms
proof (induction us arbitrary: d k rs)
  case Nil
  then show ?case by (simp add: requests_for_def)
next
  case (Cons u us)
  obtain r d1 where step: "register_route d u e = (r, d1)"
    by (cases "register_route d u e") auto
  obtain rs1 where rest: "register_all d1 (requests_for e us) = (rs1, d')" and rs: "rs = r # rs1"
    using Cons.prems(3) step
    by (auto simp: requests_for_def split: prod.splits)
  from Cons.prems(4) rs have wr: "waitlisted_response r" and wrs: "list_all waitlisted_response rs1"
    by simp_all
  have mp: "js_or_zero (max_position d e) = k"
    using Cons.prems(1,2) by (simp add: max_position_def js_or_zero_dense)
  from register_route_waitlisted_step [OF step wr] mp Cons.prems(1,2)
  have pos1: "map waitlist_position (waitlisted_rows d1 e) = map Some [1..k + 1]"
    and st1: "map reg_student_id (waitlisted_rows d1 e) =
                map reg_student_id (waitlisted_rows d e) @ [user_id u]"
    by (simp_all add: upto_snoc [symmetric])
  from Cons.prems(1) have k1: "0 \<le> k + 1" by simp
  have len: "k + 1 + int (length us) = k + int (length (u # us))" by simp
  from Cons.IH [OF k1 pos1 rest wrs] st1 show ?case
    unfolding len by simp
qed

text \<open>
  Claim C2. On an event without waitlisted registrations, after N admission requests served
  one after the other that each end on the waitlist, the waitlisted registrations of the event
  carry, in arrival order, the positions 1, ..., N: the set of positions is exactly {1..N},
  without gap or duplicate, and the i-th requester holds position i.
\<close>

theorem waitlist_positions_dense:
  assumes "waitlisted_rows d e = []"
    and "register_all d (requests_for e us) = (rs, d')"
    and "list_all waitlisted_response rs"
  shows "map waitlist_position (waitlisted_rows d' e) = map Some [1..int (length us)]
       \<and> map reg_student_id (waitlisted_rows d' e) = map user_id us
       \<and> set (map waitlist_position (waitlisted_rows d' e)) = Some ` {1..int (length us)}
       \<and> distinct (map waitlist_position (waitlisted_rows d' e))"
proof -
  have "map waitlist_position (waitlisted_rows d e) = map Some [1..0]"
    using assms(1) by simp
  from register_all_dense [OF _ this assms(2,3)] assms(1)
  have l: "map waitlist_position (waitlisted_rows d' e) = map Some [1..int (length us)]"
    and s: "map reg_student_id (waitlisted_rows d' e) = map user_id us"
    by simp_all
  have "distinct (map Some [1..int (length us)])"
    by (simp add: distinct_map)
  with l s show ?thesis by simp
qed

theorem waitlist_positions_dense_witness:
  "waitlisted_rows demo_db 2 = []
   \<and> list_all waitlisted_response (fst (register_all demo_db (requests_for 2 three_students)))
   \<and> map waitlist_position
        (waitlisted_rows (snd (register_all demo_db (requests_for 2 three_students))) 2)
       = [Some 1, Some 2, Some 3]
   \<and> map reg_student_id
        (waitlisted_rows (snd (register_all demo_db (requests_for 2 three_students))) 2)
       = [1, 2, 3]"
proof -
  have a: "waitlisted_rows demo_db 2 = []"
    by (simp add: demo_eval)
  obtain rs d' where run: "register_all demo_db (requests_for 2 three_students) = (rs, d')"
    by (cases "register_all demo_db (requests_for 2 three_students)") auto
  have "fst (register_all demo_db (requests_for 2 three_students)) =
          [Response 200 [(''message'', JStr ''Registration waitlisted''), (''waitlist_position'', JInt 1)],
           Response 200 [(''message'', JStr ''Registration waitlisted''), (''waitlist_position'', JInt 2)],
           Response 200 [(''message'', JStr ''Registration waitlisted''), (''waitlist_position'', JInt 3)]]"
    by (simp add: three_students_def requests_for_def demo_eval register_route_def
        register_handler_def admission_decision_def insert_registration_def js_ge_def
        max_position_def sql_max_def js_or_zero_def)
  with run have c: "list_all waitlisted_response rs"
    by (simp add: waitlisted_response_def)
  have u: "[1..int (length three_students)] = [1, 2, 3]"
    by (simp add: three_students_def upto_rec1)
  from waitlist_positions_dense [OF a run c] a c run u show ?thesis
    by (simp add: three_students_def student_def)
qed

section \<open>QR check-in: properties\<close>

text \<open>
  Claim C4, as amended. For a student whose account passes the guard, a QR check-in succeeds
  only when a stored event matches the payload in all three fields \<^verbatim>\<open>event_id\<close>, \<^verbatim>\<open>secret\<close>
  and \<^verbatim>\<open>college_id\<close>; when no stored event does, whichever field is off, the answer is the one
  response 400 \<^verbatim>\<open>Invalid QR code\<close> (a 400, not the 403 of Forbidden) and the store is unchanged.
\<close>

theorem qr_checkin_needs_full_match:
  assumes guard: "requireSameCollege d (Some u) = Inr u'"
    and role: "user_role u' = ''student''"
  shows "(res_status (fst (qr_checkin_route d now u (Some qr))) = 200 \<longrightarrow> qr_events d qr \<noteq> [])
       \<and> (qr_events d qr = [] \<longrightarrow>
            qr_checkin_route d now u (Some qr) = (json_error 400 ''Invalid QR code'', d))
       \<and> (qr_events d qr = [] \<and> qr_events d qr' = [] \<longrightarrow>
            qr_checkin_route d now u (Some qr') = qr_checkin_route d now u (Some qr))"
  using guard role
  by (simp add: qr_checkin_route_def qr_checkin_handler_def json_error_def)

theorem qr_checkin_needs_full_match_witness:
  "qr_events demo_db wrong_secret = []
   \<and> qr_events demo_db wrong_college = []
   \<and> qr_checkin_route demo_db 100 (student 1 1) (Some wrong_secret) =
        (json_error 400 ''Invalid QR code'', demo_db)
   \<and> qr_checkin_route demo_db 100 (student 1 1) (Some wrong_college) =
        qr_checkin_route demo_db 100 (student 1 1) (Some wrong_secret)
   \<and> res_status (fst (qr_checkin_route demo_db 100 (student 1 1) (Some right_secret))) = 200
   \<and> qr_events demo_db right_secret = [hd (events demo_db)]"
proof -
  have g: "requireSameCollege demo_db (Some (student 1 1)) = Inr (student 1 1)"
    by (simp add: demo_eval)
  have r: "user_role (student 1 1) = ''student''"
    by (simp add: student_def)
  have e: "qr_events demo_db wrong_secret = []"
    by (simp add: qr_events_def demo_db_def wrong_secret_def)
  have c: "qr_events demo_db wrong_college = []"
    by (simp add: qr_events_def demo_db_def wrong_college_def)
  have e': "qr_events demo_db right_secret = [hd (events demo_db)]"
    by (simp add: qr_events_def demo_db_def right_secret_def)
  have s: "res_status (fst (qr_checkin_route demo_db 100 (student 1 1) (Some right_secret))) = 200"
    using g e'
    by (simp add: qr_checkin_route_def qr_checkin_handler_def student_def has_attendance_def
        json_message_def demo_db_def)
  from qr_checkin_needs_full_match [OF g r, of 100 wrong_secret wrong_college]
    qr_checkin_needs_full_match [OF g r, of 100 right_secret right_secret] e c e' s
  show ?thesis
    by simp
qed

text \<open>Claim C4 as first stated fails on the status: a wrong secret is answered with 400.\<close>

theorem qr_mismatch_status_counterexample:
  "qr_checkin_route demo_db 100 (student 1 1) (Some wrong_secret) =
     (json_error 400 ''Invalid QR code'', demo_db)
   \<and> res_status (fst (qr_checkin_route demo_db 100 (student 1 1) (Some wrong_secret))) \<noteq> 403"
  by (simp add: qr_checkin_route_def qr_checkin_handler_def qr_events_def wrong_secret_def
      demo_eval json_error_def)

text \<open>
  Claim C5. When the (event, student) pair has an attendance row already, a QR check-in of that
  student for the event fails with status 400 and leaves the store, so the attendance table,
  unchanged; with the event's own code the answer is 400 \<^verbatim>\<open>Already checked in\<close>, the source's
  Conflict.
\<close>

theorem qr_checkin_twice_conflict:
  assumes guard: "requireSameCollege d (Some u) = Inr u'"
    and role: "user_role u' = ''student''"
    and attended: "has_attendance d (qrp_event_id qr) (user_id u')"
  shows "snd (qr_checkin_route d now u (Some qr)) = d
       \<and> res_status (fst (qr_checkin_route d now u (Some qr))) = 400
       \<and> (qr_events d qr \<noteq> [] \<longrightarrow>
            qr_checkin_route d now u (Some qr) = (json_error 400 ''Already checked in'', d))"
  using assms
  by (simp add: qr_checkin_route_def qr_checkin_handler_def json_error_def)

theorem qr_checkin_twice_conflict_witness:
  "qr_checkin_route demo_db 100 (student 1 1) (Some right_secret) =
     (json_message ''Checked in successfully'', attended_db)
   \<and> has_attendance attended_db 1 1
   \<and> qr_checkin_route attended_db 200 (student 1 1) (Some right_secret) =
        (json_error 400 ''Already checked in'', attended_db)"
proof -
  have g: "requireSameCollege attended_db (Some (student 1 1)) = Inr (student 1 1)"
    by (simp add: attended_db_def demo_eval)
  have r: "user_role (student 1 1) = ''student''"
    by (simp add: student_def)
  have e: "qr_events attended_db right_secret \<noteq> []"
    by (simp add: qr_events_def attended_db_def demo_db_def right_secret_def)
  have a: "has_attendance attended_db (qrp_event_id right_secret) (user_id (student 1 1))"
    by (simp add: has_attendance_def attended_db_def right_secret_def student_def)
  have first: "qr_checkin_route demo_db 100 (student 1 1) (Some right_secret) =
     (json_message ''Checked in successfully'', attended_db)"
    by (simp add: qr_checkin_route_def qr_checkin_handler_def qr_events_def has_attendance_def
        right_secret_def attended_db_def demo_eval)
  from qr_checkin_twice_conflict [OF g r a, of 200] a e first show ?thesis
    by (simp add: right_secret_def student_def)
qed

section \<open>The identity guard: properties\<close>

text \<open>
  Claim C6. For a credential that token verification accepts (so before its expiry) and whose
  role is one of the guard's three: when the account record is absent or inactive the guard
  answers 403; when it is usable the request goes on with the college of the account record;
  and the college in the credential payload never matters.
\<close>

theorem guard_rejects_dead_accounts:
  assumes auth: "authenticateToken verify authHeader = Inr u"
    and role: "known_role u"
  shows "(\<not> account_usable d u \<longrightarrow> rejected_with 403 (requireSameCollege d (Some u)))
       \<and> (account_record d u = Some (live_college, active) \<and> js_truthy active \<longrightarrow>
            requireSameCollege d (Some u) = Inr (u\<lparr>user_college_id := live_college\<rparr>))
       \<and> requireSameCollege d (Some (u\<lparr>user_college_id := c\<rparr>)) = requireSameCollege d (Some u)"
  using role
  by (auto simp: known_role_def account_usable_def account_record_def requireSameCollege_def
      rejected_with_def json_error_def split: list.splits)

theorem guard_rejects_dead_accounts_witness:
  "authenticateToken demo_verify (Some ''Bearer t4'') = Inr (student 4 1)
   \<and> \<not> account_usable demo_db (student 4 1)
   \<and> rejected_with 403 (requireSameCollege demo_db (Some (student 4 1)))
   \<and> authenticateToken demo_verify (Some ''Bearer t3'') = Inr (student 3 7)
   \<and> account_record demo_db (student 3 7) = Some (1, Some 1)
   \<and> requireSameCollege demo_db (Some (student 3 7)) = Inr (student 3 1)"
proof -
  have a: "authenticateToken demo_verify (Some ''Bearer t4'') = Inr (student 4 1)"
    by (simp add: authenticateToken_def bearer_token_def demo_verify_def)
  have k: "known_role (student 4 1)"
    by (simp add: known_role_def student_def)
  have n: "\<not> account_usable demo_db (student 4 1)"
    by (simp add: account_usable_def account_record_def demo_db_def student_def)
  have a': "authenticateToken demo_verify (Some ''Bearer t3'') = Inr (student 3 7)"
    by (simp add: authenticateToken_def bearer_token_def demo_verify_def)
  have k': "known_role (student 3 7)"
    by (simp add: known_role_def student_def)
  have u: "account_record demo_db (student 3 7) = Some (1, Some 1)"
    by (simp add: account_record_def demo_db_def student_def)
  have eq: "student 3 7\<lparr>user_college_id := 1\<rparr> = student 3 1"
    by (simp add: student_def)
  from guard_rejects_dead_accounts [OF a k, of demo_db]
    guard_rejects_dead_accounts [OF a' k', of demo_db 1 "Some 1"] a n a' u eq
  show ?thesis
    by simp
qed

section \<open>Notes and feedback: properties\<close>

lemma update_notes_in_place:
  "length (update_notes ns e s c) = length ns
   \<and> map note_event_id (update_notes ns e s c) = map note_event_id ns
   \<and> map note_student_id (update_notes ns e s c) = map note_student_id ns"
  by (induction ns) (simp_all add: update_notes_def)

text \<open>
  Claim C7, as amended. Notes have one-per-(event, student) upsert semantics: a submission
  creates the note when the pair has none and updates it in place when it has one. Feedback is
  created when the pair has none; when it has one, the submission is refused with 400
  \<^verbatim>\<open>Feedback already submitted for this event\<close> and nothing is changed.
\<close>

theorem notes_upsert_feedback_create_once:
  assumes guard: "requireSameCollege d (Some u) = Inr u'"
    and role: "user_role u' = ''student''"
  shows "(note_errors content_text = [] \<and> registered_for d event_id u' \<longrightarrow>
            notes_route d u event_id content_text =
              (if has_note d event_id (user_id u')
               then (json_message ''Note updated successfully'',
                     d\<lparr>notes_table :=
                          update_notes (notes_table d) event_id (user_id u') content_text\<rparr>)
               else (json_message ''Note created successfully'',
                     d\<lparr>notes_table := notes_table d @
                          [\<lparr>note_event_id = event_id, note_student_id = user_id u',
                            note_content = content_text\<rparr>]\<rparr>)))
       \<and> (feedback_errors b = [] \<and> attended d (fbb_event_id b) u' \<longrightarrow>
            feedback_route d insert_id u b =
              (if has_feedback d (fbb_event_id b) (user_id u')
               then (json_error 400 ''Feedback already submitted for this event'', d)
               else (Response 201 [(''message'', JStr ''Feedback submitted successfully''),
                                   (''feedback_id'', JInt insert_id)],
                     d\<lparr>feedback := feedback d @
                          [\<lparr>fb_id = insert_id, fb_college_id = user_college_id u',
                            fb_event_id = fbb_event_id b, fb_student_id = user_id u',
                            fb_rating = fbb_rating b, fb_comments = fbb_comments b,
                            fb_suggestions = fbb_suggestions b,
                            fb_anonymous = fbb_anonymous b\<rparr>]\<rparr>)))"
  using guard role
  by (simp add: notes_route_def notes_handler_def feedback_route_def feedback_handler_def
      registered_for_def attended_def)

theorem notes_upsert_feedback_create_once_witness:
  "notes_route reviewed_db (student 1 1) 1 ''bring charger'' =
     (json_message ''Note updated successfully'',
      reviewed_db\<lparr>notes_table :=
        [\<lparr>note_event_id = 1, note_student_id = 1, note_content = ''bring charger''\<rparr>]\<rparr>)
   \<and> feedback_route reviewed_db 2 (student 1 1) better_rating =
     (json_error 400 ''Feedback already submitted for this event'', reviewed_db)"
proof -
  have g: "requireSameCollege reviewed_db (Some (student 1 1)) = Inr (student 1 1)"
    by (simp add: reviewed_db_def demo_eval)
  have r: "user_role (student 1 1) = ''student''"
    by (simp add: student_def)
  have v: "note_errors ''bring charger'' = []" "registered_for reviewed_db 1 (student 1 1)"
    "has_note reviewed_db 1 (user_id (student 1 1))"
    "feedback_errors better_rating = []"
    "attended reviewed_db (fbb_event_id better_rating) (student 1 1)"
    "has_feedback reviewed_db (fbb_event_id better_rating) (user_id (student 1 1))"
    "update_notes (notes_table reviewed_db) 1 (user_id (student 1 1)) ''bring charger'' =
       [\<lparr>note_event_id = 1, note_student_id = 1, note_content = ''bring charger''\<rparr>]"
    by (simp_all add: note_errors_def registered_for_def attended_def has_note_def
        has_feedback_def feedback_errors_def better_rating_def update_notes_def
        reviewed_db_def student_def)
  from notes_upsert_feedback_create_once
      [OF g r, where content_text = "''bring charger''" and event_id = 1
         and b = better_rating and insert_id = 2] v
  show ?thesis by simp
qed

text \<open>
  Claim C7 as first stated fails for feedback: a second submission is refused, and the stored
  rating stays.
\<close>

theorem feedback_not_upsert_counterexample:
  "has_feedback reviewed_db 1 1
   \<and> feedback_errors better_rating = []
   \<and> feedback_route reviewed_db 2 (student 1 1) better_rating =
       (json_error 400 ''Feedback already submitted for this event'', reviewed_db)
   \<and> map fb_rating (feedback (snd (feedback_route reviewed_db 2 (student 1 1) better_rating)))
       = [2]"
  by (simp add: feedback_route_def feedback_handler_def has_feedback_def feedback_errors_def
      better_rating_def reviewed_db_def demo_eval)

section \<open>Login: properties\<close>

text \<open>
  Claim C9. When the email has a row in \<^verbatim>\<open>admins\<close>, login compares the password with that
  row's hash and, on a match, signs a token with the row's id and college and the role
  \<^verbatim>\<open>admin\<close>; the outcome is the same whatever the \<^verbatim>\<open>students\<close> table holds, so also when it
  holds the same email.
\<close>

theorem login_admins_first:
  assumes valid: "login_errors is_email email password = []"
    and admin: "admins_by_email d email = a # as"
  shows "login_handler is_email compare sign d email password =
           (if compare password (acc_password_hash a)
            then Response 200
                   [(''message'', JStr ''Login successful''),
                    (''token'', JStr (sign \<lparr>user_id = acc_id a,
                                            user_college_id = acc_college_id a,
                                            user_role = ''admin''\<rparr>)),
                    (''user'', JObj [(''id'', JInt (acc_id a)),
                                    (''email'', JStr (acc_email a)),
                                    (''role'', JStr ''admin'')])]
            else json_error 401 ''Invalid credentials'')
       \<and> login_handler is_email compare sign (d\<lparr>students := ss\<rparr>) email password =
           login_handler is_email compare sign d email password"
  using valid admin
  by (simp add: login_handler_def admins_by_email_def)

theorem login_admins_first_witness:
  "students_by_email demo_db ''e@y.org'' \<noteq> []
   \<and> login_handler demo_is_email demo_compare demo_sign demo_db ''e@y.org'' ''g2'' =
        Response 200
          [(''message'', JStr ''Login successful''),
           (''token'', JStr ''signed-admin''),
           (''user'', JObj [(''id'', JInt 2), (''email'', JStr ''e@y.org''),
                           (''role'', JStr ''admin'')])]
   \<and> login_handler demo_is_email demo_compare demo_sign demo_db ''e@y.org'' ''h5'' =
        json_error 401 ''Invalid credentials''"
proof -
  have v: "login_errors demo_is_email ''e@y.org'' ''g2'' = []"
    "login_errors demo_is_email ''e@y.org'' ''h5'' = []"
    by (simp_all add: login_errors_def demo_is_email_def)
  have a: "admins_by_email demo_db ''e@y.org'' = admin_account (admins demo_db ! 1) # []"
    by (simp add: admins_by_email_def demo_db_def)
  have s: "students_by_email demo_db ''e@y.org'' \<noteq> []"
    by (simp add: students_by_email_def demo_db_def)
  have h: "admin_account (admins demo_db ! 1) =
             \<lparr>acc_id = 2, acc_college_id = 2, acc_email = ''e@y.org'', acc_password_hash = ''g2''\<rparr>"
    by (simp add: admin_account_def demo_db_def)
  from login_admins_first [OF v(1) a, of demo_compare demo_sign]
    login_admins_first [OF v(2) a, of demo_compare demo_sign] s h
  show ?thesis
    by (simp add: demo_compare_def demo_sign_def)
qed

text \<open>Without a row in \<^verbatim>\<open>admins\<close>, the first \<^verbatim>\<open>students\<close> row decides, with the role \<^verbatim>\<open>student\<close>.\<close>

lemma login_students_fallback:
  assumes "login_errors is_email email password = []"
    and "admins_by_email d email = []"
    and "students_by_email d email = s # ss"
  shows "login_handler is_email compare sign d email password =
           (if compare password (acc_password_hash s)
            then Response 200
                   [(''message'', JStr ''Login successful''),
                    (''token'', JStr (sign \<lparr>user_id = acc_id s,
                                            user_college_id = acc_college_id s,
                                            user_role = ''student''\<rparr>)),
                    (''user'', JObj [(''id'', JInt (acc_id s)),
                                    (''email'', JStr (acc_email s)),
                                    (''role'', JStr ''student'')])]
            else json_error 401 ''Invalid credentials'')"
  using assms by (simp add: login_handler_def)

section \<open>Reports: properties\<close>















end
